theory Spec2Isabelle
  imports Complex_Main "HOL-Library.Word"
begin

section \<open>Strings and values of the host language\<close>

text \<open>
  The service module is TypeScript. A string of the host language is the list of its
  UTF-16 code units: that is what \<^verbatim>\<open>substring\<close>, \<^verbatim>\<open>split\<close> and the
  emptiness test of a condition count. String constants of the source are written with
  \<open>lit\<close>, which maps each ASCII character to its code unit.
\<close>

type_synonym jsstring = "16 word list"

definition lit :: "string \<Rightarrow> jsstring" where
  "lit s = map of_char s"

text \<open>
  What the code throws. \<open>Error m\<close> is \<^verbatim>\<open>new Error(m)\<close>; \<open>SyntaxError\<close> is what
  \<^verbatim>\<open>JSON.parse\<close> throws on malformed text; \<open>TypeError\<close> is a property read or
  write on \<^verbatim>\<open>null\<close> or \<^verbatim>\<open>undefined\<close>; \<open>ReadError\<close> is the event a
  \<^verbatim>\<open>FileReader\<close> rejects with; \<open>ApiError m\<close> is an error of the client library.
\<close>

datatype error = Error jsstring | SyntaxError | TypeError | ReadError | ApiError jsstring

text \<open>
  Values of type \<^verbatim>\<open>any\<close>: what \<^verbatim>\<open>JSON.parse\<close> returns and what the
  elements of \<^verbatim>\<open>messages: any[]\<close> are. An object is the list of its own
  properties in insertion order; its prototype is \<^verbatim>\<open>Object.prototype\<close>, as for
  every object \<^verbatim>\<open>JSON.parse\<close> builds. No value of the model is a function, so a
  property of an object is never callable.
\<close>

datatype jsval =
    JUndefined
  | JNull
  | JBool bool
  | JNum real
  | JStr jsstring
  | JArr "jsval list"
  | JObj "(jsstring \<times> jsval) list"

text \<open>The truth value a condition gives a value.\<close>

fun truthy :: "jsval \<Rightarrow> bool" where
  "truthy JUndefined = False"
| "truthy JNull = False"
| "truthy (JBool b) = b"
| "truthy (JNum r) = (r \<noteq> 0)"
| "truthy (JStr s) = (s \<noteq> [])"
| "truthy (JArr xs) = True"
| "truthy (JObj kvs) = True"

text \<open>
  Reading a property \<^verbatim>\<open>v.k\<close>. On \<^verbatim>\<open>null\<close> and \<^verbatim>\<open>undefined\<close> it throws. The
  source reads only \<^verbatim>\<open>role\<close>, \<^verbatim>\<open>text\<close>, \<^verbatim>\<open>shouldCancel\<close> and
  \<^verbatim>\<open>reason\<close>, which no built-in prototype defines, so on a primitive value, on an
  array and on an object without the property the read gives \<^verbatim>\<open>undefined\<close>.
\<close>

fun getProp :: "jsval \<Rightarrow> jsstring \<Rightarrow> error + jsval" where
  "getProp JUndefined k = Inl TypeError"
| "getProp JNull k = Inl TypeError"
| "getProp (JObj kvs) k = Inr (case map_of kvs k of None \<Rightarrow> JUndefined | Some v \<Rightarrow> v)"
| "getProp v k = Inr JUndefined"

text \<open>
  Writing a property \<^verbatim>\<open>v.k = x\<close> (module code is strict): an existing property of
  an object keeps its place, a new one is added last; on \<^verbatim>\<open>null\<close>,
  \<^verbatim>\<open>undefined\<close> and primitive values the write throws. The arrays of this model
  carry no named properties; the source never writes to one, since it writes
  \<^verbatim>\<open>reason\<close> only after reading a truthy \<^verbatim>\<open>reason\<close>.
\<close>

fun updateProp :: "jsstring \<Rightarrow> jsval \<Rightarrow> (jsstring \<times> jsval) list \<Rightarrow> (jsstring \<times> jsval) list" where
  "updateProp k x [] = [(k, x)]"
| "updateProp k x ((k', v) # kvs) = (if k' = k then (k, x) # kvs else (k', v) # updateProp k x kvs)"

fun setProp :: "jsval \<Rightarrow> jsstring \<Rightarrow> jsval \<Rightarrow> error + jsval" where
  "setProp (JObj kvs) k x = Inr (JObj (updateProp k x kvs))"
| "setProp (JArr xs) k x = Inr (JArr xs)"
| "setProp v k x = Inl TypeError"

text \<open>\<^verbatim>\<open>Array.prototype.join\<close> on an array of strings.\<close>

fun join :: "jsstring \<Rightarrow> jsstring list \<Rightarrow> jsstring" where
  "join sep [] = []"
| "join sep [x] = x"
| "join sep (x # y # ys) = x @ sep @ join sep (y # ys)"

text \<open>
  The string a template literal puts in place of a value, or the error the conversion
  throws. The digits of a number are the host's \<^verbatim>\<open>Number.prototype.toString\<close>,
  taken as the parameter \<open>n2s\<close>. An object is converted through its
  \<^verbatim>\<open>toString\<close>: the inherited one prints \<^verbatim>\<open>[object Object]\<close>; an own property
  of that name hides it and is not callable, the \<^verbatim>\<open>valueOf\<close> tried next is either
  an own property, not callable, or the inherited one, which returns the object, so the
  conversion throws a type error. An array is converted by
  \<^verbatim>\<open>Array.prototype.join\<close>: its elements in order, separated by commas,
  \<^verbatim>\<open>null\<close> and \<^verbatim>\<open>undefined\<close> elements as nothing, every other element converted
  in turn, the first throw ending the conversion.
\<close>

fun toStr :: "(real \<Rightarrow> jsstring) \<Rightarrow> jsval \<Rightarrow> error + jsstring"
  and toStrElems :: "(real \<Rightarrow> jsstring) \<Rightarrow> jsval list \<Rightarrow> error + jsstring list" where
  "toStr n2s JUndefined = Inr (lit ''undefined'')"
| "toStr n2s JNull = Inr (lit ''null'')"
| "toStr n2s (JBool b) = Inr (if b then lit ''true'' else lit ''false'')"
| "toStr n2s (JNum r) = Inr (n2s r)"
| "toStr n2s (JStr s) = Inr s"
| "toStr n2s (JArr xs) =
     (case toStrElems n2s xs of Inl e \<Rightarrow> Inl e | Inr ss \<Rightarrow> Inr (join (lit '','') ss))"
| "toStr n2s (JObj kvs) =
     (if map_of kvs (lit ''toString'') \<noteq> None then Inl TypeError
      else Inr (lit ''[object Object]''))"
| "toStrElems n2s [] = Inr []"
| "toStrElems n2s (x # xs) =
     (case (if x = JUndefined \<or> x = JNull then Inr [] else toStr n2s x) of
        Inl e \<Rightarrow> Inl e
      | Inr s \<Rightarrow> (case toStrElems n2s xs of Inl e \<Rightarrow> Inl e | Inr ss \<Rightarrow> Inr (s # ss)))"

text \<open>
  \<^verbatim>\<open>s.substring(a, b)\<close> for indices that are natural numbers: the two are swapped
  when out of order and clamped to the length.
\<close>

definition substring :: "nat \<Rightarrow> nat \<Rightarrow> jsstring \<Rightarrow> jsstring" where
  "substring a b s = take (max a b - min a b) (drop (min a b) s)"

text \<open>\<^verbatim>\<open>xs.slice(-n)\<close>: the last \<open>n\<close> elements, all of them when there are fewer.\<close>

definition sliceLast :: "nat \<Rightarrow> 'a list \<Rightarrow> 'a list" where
  "sliceLast n xs = (if length xs \<le> n then xs else drop (length xs - n) xs)"

text \<open>\<^verbatim>\<open>s.split(c)\<close> for a one-unit separator, and \<^verbatim>\<open>xs[i]\<close> (undefined out of range).\<close>

fun splitOn :: "'a \<Rightarrow> 'a list \<Rightarrow> 'a list list" where
  "splitOn c [] = [[]]"
| "splitOn c (x # xs) =
     (if x = c then [] # splitOn c xs
      else (case splitOn c xs of [] \<Rightarrow> [[x]] | y # ys \<Rightarrow> (x # y) # ys))"

definition index :: "'a list \<Rightarrow> nat \<Rightarrow> 'a option" where
  "index xs i = (if i < length xs then Some (xs ! i) else None)"

section \<open>The data model\<close>

text \<open>
  Modelled from the spec: the interface \<^verbatim>\<open>AnalysisResult\<close> of the module
  \<^verbatim>\<open>../types\<close>, which is not among the sources. Its fields are those of section 3 of
  the specification, which are also the properties the analysis schema declares and the
  fields the prompts read.
\<close>

record Metrics =
  marketSize :: jsstring
  scalability :: jsstring
  innovation :: jsstring

record AnalysisResult =
  score :: real
  companyName :: jsstring
  summary :: jsstring
  pros :: "jsstring list"
  cons :: "jsstring list"
  metrics :: Metrics

text \<open>
  A \<^verbatim>\<open>File\<close>, as far as the code looks at it: its \<^verbatim>\<open>type\<close> and what a
  \<^verbatim>\<open>FileReader\<close> makes of it (\<open>None\<close>: the reader fails).
\<close>

record File =
  ftype :: jsstring
  readAsDataURL :: "jsstring option"

section \<open>The generative-AI client\<close>

text \<open>
  The schema object the analysis request declares: a number or a string with its
  description, an array with its item schema and description, an object with its
  properties and its list of required properties (\<open>None\<close> when the source gives none).
\<close>

datatype schema =
    SNumber jsstring
  | SString jsstring
  | SArray schema jsstring
  | SObject "(jsstring \<times> schema) list" "jsstring list option"

datatype part = Text jsstring | InlineData jsstring "jsstring option"

record request =
  model :: jsstring
  parts :: "part list"
  responseMimeType :: jsstring
  responseSchema :: "schema option"

text \<open>
  What awaiting \<^verbatim>\<open>generateContent\<close> gives: the promise rejects with an error, or
  resolves to a response whose \<^verbatim>\<open>text\<close> is a string or undefined.
\<close>

datatype response = Rejected error | Resolved "jsstring option"

text \<open>
  The world the module runs in, none of it part of the sources:
  \<^item> \<open>envKey\<close>: the environment variable \<^verbatim>\<open>VITE_GEMINI_API_KEY\<close>, if set;
  \<^item> \<open>ctorEmptyKey\<close>: what the client library's constructor does when it is handed the
    empty key: \<open>None\<close> when it accepts it, \<open>Some e\<close> when it throws \<open>e\<close>. With a
    non-empty key the constructor returns; it issues no request either way;
  \<^item> \<open>generateContent\<close>: the service, as a function of the key the client was built
    with and of the request;
  \<^item> \<open>jsonParse\<close>: \<^verbatim>\<open>JSON.parse\<close> (\<open>None\<close>: it throws a syntax error);
  \<^item> \<open>numToString\<close>: the digits of a number in a template literal.
\<close>

record world =
  envKey :: "jsstring option"
  ctorEmptyKey :: "error option"
  generateContent :: "jsstring \<Rightarrow> request \<Rightarrow> response"
  jsonParse :: "jsstring \<Rightarrow> jsval option"
  numToString :: "real \<Rightarrow> jsstring"

text \<open>
  A call of an entry point returns what it returns or throws, together with the
  requests it has sent to the service, in order; a request is listed with the key of the
  client that sends it.
\<close>

type_synonym call = "jsstring \<times> request"

type_synonym 'a outcome = "(error + 'a) \<times> call list"

definition getApiKey :: "world \<Rightarrow> jsstring" where
  "getApiKey w = (case envKey w of None \<Rightarrow> [] | Some k \<Rightarrow> if k \<noteq> [] then k else [])"

definition newGoogleGenAI :: "world \<Rightarrow> jsstring \<Rightarrow> error option" where
  "newGoogleGenAI w apiKey = (if apiKey = [] then ctorEmptyKey w else None)"

definition jsonParseE :: "world \<Rightarrow> jsstring \<Rightarrow> error + jsval" where
  "jsonParseE w s = (case jsonParse w s of None \<Rightarrow> Inl SyntaxError | Some v \<Rightarrow> Inr v)"

definition apiKeyMissing :: error where
  "apiKeyMissing = Error (lit ''Gemini API Key is missing. Please check your environment configuration.'')"

definition modelId :: jsstring where
  "modelId = lit ''gemini-3-flash-preview''"

definition textRequest :: "jsstring \<Rightarrow> request" where
  "textRequest prompt =
     \<lparr>model = modelId, parts = [Text prompt],
      responseMimeType = lit ''application/json'', responseSchema = None\<rparr>"

section \<open>Analysis of the pitch\<close>

definition fileToBase64 :: "File \<Rightarrow> error + jsstring option" where
  "fileToBase64 f =
     (case readAsDataURL f of
        None \<Rightarrow> Inl ReadError
      | Some result \<Rightarrow> Inr (index (splitOn (0x2C :: 16 word) result) 1))"

definition analysisSchema :: schema where
  "analysisSchema =
     SObject
       [(lit ''score'', SNumber (lit ''A score from 0 to 100 based on investment potential.'')),
        (lit ''companyName'', SString (lit ''Inferred name of the startup.'')),
        (lit ''summary'', SString (lit ''Brief executive summary of the pitch.'')),
        (lit ''pros'', SArray (SString []) (lit ''List of key strengths.'')),
        (lit ''cons'', SArray (SString []) (lit ''List of potential risks or weaknesses.'')),
        (lit ''metrics'',
           SObject
             [(lit ''marketSize'', SString (lit ''Estimated market size assessment.'')),
              (lit ''scalability'', SString (lit ''Assessment of scalability.'')),
              (lit ''innovation'', SString (lit ''Assessment of innovation/moat.''))]
             None)]
       (Some [lit ''score'', lit ''companyName'', lit ''summary'', lit ''pros'', lit ''cons'',
              lit ''metrics''])"

definition basePrompt :: jsstring where
  \<open>basePrompt =
   lit (''You are a strict Venture Capital analyst. Analyze the provided startup materials.\<newline>'' @
        ''    These materials may include a video pitch, a PDF report, and/or a text summary.\<newline>'' @
        ''    \<newline>'' @
        ''    Evaluate the business model, market opportunity, and team presentation based on ALL provided content.\<newline>'' @
        ''    Return a JSON response with a score (0-100). \<newline>'' @
        ''    If the startup is exceptional, give it > 90. If it has flaws, score appropriately.'')\<close>

definition contextPrefix :: jsstring where
  "contextPrefix = lit ''ADDITIONAL CONTEXT / SUMMARY:\<newline>''"

definition pdfFailed :: error where
  "pdfFailed = Error (lit ''Failed to process PDF report.'')"

definition videoFailed :: error where
  "videoFailed =
     Error (lit ''Failed to process video file. It might be too large for this browser-based demo.'')"

definition noResponseText :: error where
  "noResponseText = Error (lit ''No response text generated'')"

text \<open>The two optional file steps: each pushes one part, or throws its own error.\<close>

definition addReportFile :: "File option \<Rightarrow> part list \<Rightarrow> error + part list" where
  "addReportFile reportFile ps =
     (case reportFile of
        None \<Rightarrow> Inr ps
      | Some f \<Rightarrow>
          (case fileToBase64 f of
             Inl e \<Rightarrow> Inl pdfFailed
           | Inr base64Pdf \<Rightarrow> Inr (ps @ [InlineData (lit ''application/pdf'') base64Pdf])))"

definition addVideoFile :: "File option \<Rightarrow> part list \<Rightarrow> error + part list" where
  "addVideoFile videoFile ps =
     (case videoFile of
        None \<Rightarrow> Inr ps
      | Some f \<Rightarrow>
          (case fileToBase64 f of
             Inl e \<Rightarrow> Inl videoFailed
           | Inr base64Video \<Rightarrow> Inr (ps @ [InlineData (ftype f) base64Video])))"

definition analysisRequest :: "part list \<Rightarrow> request" where
  "analysisRequest ps =
     \<lparr>model = modelId, parts = ps,
      responseMimeType = lit ''application/json'', responseSchema = Some analysisSchema\<rparr>"

text \<open>
  The body of the last \<^verbatim>\<open>try\<close>: the awaited response, then the parse of its text when
  the text is a non-empty string. Its \<^verbatim>\<open>catch\<close> logs and throws the same error again.
\<close>

definition analysisBody :: "world \<Rightarrow> response \<Rightarrow> error + jsval" where
  "analysisBody w r =
     (case r of
        Rejected e \<Rightarrow> Inl e
      | Resolved t \<Rightarrow>
          (case t of
             None \<Rightarrow> Inl noResponseText
           | Some s \<Rightarrow> if s \<noteq> [] then jsonParseE w s else Inl noResponseText))"

definition analyzeStartupPitch ::
  "world \<Rightarrow> File option \<Rightarrow> jsstring \<Rightarrow> File option \<Rightarrow> jsval outcome" where
  "analyzeStartupPitch w videoFile reportText reportFile =
     (let apiKey = getApiKey w in
      if apiKey = [] then (Inl apiKeyMissing, [])
      else
        (case newGoogleGenAI w apiKey of
           Some e \<Rightarrow> (Inl e, [])
         | None \<Rightarrow>
             (let parts0 = [Text basePrompt];
                  parts1 = (if reportText \<noteq> [] then parts0 @ [Text (contextPrefix @ reportText)]
                            else parts0)
              in
                (case addReportFile reportFile parts1 of
                   Inl e \<Rightarrow> (Inl e, [])
                 | Inr parts2 \<Rightarrow>
                     (case addVideoFile videoFile parts2 of
                        Inl e \<Rightarrow> (Inl e, [])
                      | Inr parts3 \<Rightarrow>
                          (let req = analysisRequest parts3 in
                           (case analysisBody w (generateContent w apiKey req) of
                              Inl error \<Rightarrow> Inl error
                            | Inr v \<Rightarrow> Inr v,
                            [(apiKey, req)])))))))"

section \<open>The negotiation session\<close>

text \<open>
  The chat object \<^verbatim>\<open>ai.chats.create\<close> returns: creating it stores the key, the model
  and the system instruction and sends nothing; requests are sent when a message is sent
  through it, which this module does not do.
\<close>

record chat =
  chatKey :: jsstring
  chatModel :: jsstring
  systemInstruction :: jsstring

definition systemInstructionText :: jsstring where
  \<open>systemInstructionText =
   lit (''You are "Ventura", a highly intelligent AI Investment Negotiator representing a top-tier VC firm.\<newline>'' @
        ''      The startup you are talking to has passed the initial screening with a high score (>60%).\<newline>'' @
        ''      \<newline>'' @
        ''      Your Goal: Negotiate a term sheet.\<newline>'' @
        ''      \<newline>'' @
        ''      Topics to discuss specifically:\<newline>'' @
        ''      1. Valuation & Equity (How much for what %)\<newline>'' @
        ''      2. Use of Funds (Burn rate, runway)\<newline>'' @
        ''      3. EBITDA & Profitability timelines\<newline>'' @
        ''      4. Long-term Vision & Exit Strategy\<newline>'' @
        ''      \<newline>'' @
        ''      Tone: Professional, direct, shrewd, yet supportive of high-growth potential. Do not accept weak answers. Drill down into numbers.\<newline>'' @
        ''      \<newline>'' @
        ''      IMPORTANT NEGOTIATION RULES:\<newline>'' @
        ''      - If the founder dodges key questions 2+ times, call it out firmly\<newline>'' @
        ''      - If valuations/expectations are wildly unrealistic, push back with market data\<newline>'' @
        ''      - If the founder can't provide basic metrics (revenue, growth rate, CAC), express serious concern\<newline>'' @
        ''      - If you sense the conversation is going in circles, acknowledge it and request specific information\<newline>'' @
        ''      - Be willing to express skepticism when warranted - you represent a real VC firm\<newline>'' @
        ''      - Your time is valuable; don't let founders waste it with vague or evasive answers\<newline>'' @
        ''      \<newline>'' @
        ''      Start by congratulating them on the high score and asking for their funding ask.'')\<close>

definition createNegotiationSession :: "world \<Rightarrow> jsstring \<Rightarrow> chat outcome" where
  "createNegotiationSession w initialContext =
     (let apiKey = getApiKey w in
      if apiKey = [] then (Inl apiKeyMissing, [])
      else
        (case newGoogleGenAI w apiKey of
           Some e \<Rightarrow> (Inl e, [])
         | None \<Rightarrow>
             (Inr \<lparr>chatKey = apiKey, chatModel = lit ''gemini-3-flash-preview'',
                   systemInstruction = systemInstructionText\<rparr>,
              [])))"

section \<open>The simulation invokers\<close>

subsection \<open>Due diligence\<close>

definition dueDiligencePrompt :: "AnalysisResult \<Rightarrow> jsstring \<Rightarrow> jsstring" where
  \<open>dueDiligencePrompt analysis pitchText =
   lit (''\<newline>'' @
        ''    You are a skeptical Due Diligence Investigator. \<newline>'' @
        ''    Review the following startup pitch summary and analysis.\<newline>'' @
        ''    Extract 3-5 specific, verifiable claims made by the founders (e.g. "We have 50% month-over-month growth", "We are the only solution in the market").\<newline>'' @
        ''    \<newline>'' @
        ''    For each claim, flag it as "Unverified" and ask a probing question to verify it.\<newline>'' @
        ''    \<newline>'' @
        ''    Startup: '') @
   companyName analysis @
   lit (''\<newline>'' @
        ''    Summary: '') @
   summary analysis @
   lit (''\<newline>'' @
        ''    Pitch Context: '') @
   substring 0 1000 pitchText @
   lit (''...\<newline>'' @
        ''\<newline>'' @
        ''    Return a JSON array of objects with this schema:\<newline>'' @
        ''    {\<newline>'' @
        ''      "id": "string (unique)",\<newline>'' @
        ''      "claim": "string (the exact claim)",\<newline>'' @
        ''      "category": "Market" | "Financial" | "Team" | "Product",\<newline>'' @
        ''      "status": "Unverified",\<newline>'' @
        ''      "aiQuestion": "string (your probing question)"\<newline>'' @
        ''    }\<newline>'' @
        ''  '')\<close>

text \<open>
  The body of the \<^verbatim>\<open>try\<close>: the awaited response, the parse of a non-empty text, the
  empty list when there is no text. The \<^verbatim>\<open>catch\<close> around it returns the empty list.
\<close>

definition dueDiligenceBody :: "world \<Rightarrow> response \<Rightarrow> error + jsval" where
  "dueDiligenceBody w r =
     (case r of
        Rejected e \<Rightarrow> Inl e
      | Resolved t \<Rightarrow>
          (case t of
             None \<Rightarrow> Inr (JArr [])
           | Some s \<Rightarrow> if s \<noteq> [] then jsonParseE w s else Inr (JArr [])))"

definition performDueDiligence :: "world \<Rightarrow> jsstring \<Rightarrow> AnalysisResult \<Rightarrow> jsval outcome" where
  "performDueDiligence w pitchText analysis =
     (let apiKey = getApiKey w in
      case newGoogleGenAI w apiKey of
        Some e \<Rightarrow> (Inl e, [])
      | None \<Rightarrow>
          (let req = textRequest (dueDiligencePrompt analysis pitchText) in
           (case dueDiligenceBody w (generateContent w apiKey req) of
              Inl e \<Rightarrow> Inr (JArr [])
            | Inr v \<Rightarrow> Inr v,
            [(apiKey, req)])))"

subsection \<open>Committee debate\<close>




subsection \<open>Board simulation\<close>





subsection \<open>Negotiation progress\<close>

definition progressDefault :: jsval where
  "progressDefault =
     JObj [(lit ''shouldCancel'', JBool False),
           (lit ''showWarning'', JBool False),
           (lit ''reason'', JStr [])]"

text \<open>
  One line of the conversation text, the callback of \<^verbatim>\<open>map\<close>: it reads
  \<^verbatim>\<open>role\<close> and \<^verbatim>\<open>text\<close> of the message, so it throws on a message that is
  \<^verbatim>\<open>null\<close> or \<^verbatim>\<open>undefined\<close>, and it converts the text to a string, so it
  throws when that conversion does.
\<close>

definition messageLine :: "world \<Rightarrow> jsval \<Rightarrow> error + jsstring" where
  "messageLine w msg =
     (case getProp msg (lit ''role'') of
        Inl e \<Rightarrow> Inl e
      | Inr role \<Rightarrow>
          (case getProp msg (lit ''text'') of
             Inl e \<Rightarrow> Inl e
           | Inr text \<Rightarrow>
               (case toStr (numToString w) text of
                  Inl e \<Rightarrow> Inl e
                | Inr s \<Rightarrow>
                    Inr ((if role = JStr (lit ''user'') then lit ''Founder'' else lit ''VC'')
                         @ lit '': '' @ s))))"

text \<open>\<^verbatim>\<open>Array.prototype.map\<close> with a callback that can throw: the first throw ends it.\<close>

fun mapE :: "('a \<Rightarrow> error + 'b) \<Rightarrow> 'a list \<Rightarrow> error + 'b list" where
  "mapE f [] = Inr []"
| "mapE f (x # xs) =
     (case f x of
        Inl e \<Rightarrow> Inl e
      | Inr y \<Rightarrow> (case mapE f xs of Inl e \<Rightarrow> Inl e | Inr ys \<Rightarrow> Inr (y # ys)))"

definition conversationText :: "world \<Rightarrow> jsval list \<Rightarrow> error + jsstring" where
  "conversationText w recentMessages =
     (case mapE (messageLine w) recentMessages of
        Inl e \<Rightarrow> Inl e
      | Inr ls \<Rightarrow> Inr (join (lit ''\<newline>\<newline>'') ls))"

definition progressPrompt :: "world \<Rightarrow> AnalysisResult \<Rightarrow> jsstring \<Rightarrow> jsstring" where
  \<open>progressPrompt w analysis conv =
   lit (''\<newline>'' @
        ''    You are a Negotiation Progress Analyzer for a VC firm.\<newline>'' @
        ''    Analyze this negotiation conversation and determine if it should be cancelled.\<newline>'' @
        ''    \<newline>'' @
        ''    Startup: '') @
   companyName analysis @
   lit ('' (Score: '') @
   numToString w (score analysis) @
   lit (''/100)\<newline>'' @
        ''    \<newline>'' @
        ''    Recent Conversation:\<newline>'' @
        ''    '') @
   conv @
   lit (''\<newline>'' @
        ''    \<newline>'' @
        ''    Analyze for these RED FLAGS:\<newline>'' @
        ''    1. Founder is repeatedly dodging key questions (valuations, revenue, metrics)\<newline>'' @
        ''    2. Founder is being unrealistic or defensive about terms\<newline>'' @
        ''    3. Conversation is going in circles (same topics repeated 3+ times)\<newline>'' @
        ''    4. Founder shows lack of understanding of basic business metrics\<newline>'' @
        ''    5. Founder is giving vague, non-committal answers\<newline>'' @
        ''    6. Terms are so far apart that compromise seems unlikely\<newline>'' @
        ''    7. Founder's expectations are completely misaligned with reality\<newline>'' @
        ''    \<newline>'' @
        ''    Return JSON:\<newline>'' @
        ''    {\<newline>'' @
        ''      "shouldCancel": boolean (true if 3+ red flags or conversation is clearly unproductive),\<newline>'' @
        ''      "showWarning": boolean (true if 2 red flags detected - warn but don't cancel yet),\<newline>'' @
        ''      "reason": "string (if shouldCancel is true, provide a professional message explaining why the VC is ending negotiations. Be diplomatic but firm.)"\<newline>'' @
        ''    }\<newline>'' @
        ''    \<newline>'' @
        ''    Example cancellation reason: "After careful consideration of our discussion, it appears our expectations around valuation and growth metrics are significantly misaligned. We believe it's best to pause negotiations at this time. We wish you success and encourage you to reconnect once you've achieved the milestones we discussed."\<newline>'' @
        ''  '')\<close>

text \<open>
  The marker put before the reason, as the source file holds it: the code units
  U+00F0, U+0178, U+0161, U+00AB and a space.
\<close>

definition cancelMarker :: jsstring where
  "cancelMarker = [0xF0, 0x178, 0x161, 0xAB, 0x20]"

text \<open>
  What the code does with the parsed result: when its \<^verbatim>\<open>shouldCancel\<close> and its
  \<^verbatim>\<open>reason\<close> are both truthy, the reason is converted to a string, which can
  throw, and overwritten with the marker followed by that string.
\<close>

definition markReason :: "world \<Rightarrow> jsval \<Rightarrow> error + jsval" where
  "markReason w result =
     (case getProp result (lit ''shouldCancel'') of
        Inl e \<Rightarrow> Inl e
      | Inr shouldCancel \<Rightarrow>
          if truthy shouldCancel then
            (case getProp result (lit ''reason'') of
               Inl e \<Rightarrow> Inl e
             | Inr reason \<Rightarrow>
                 if truthy reason then
                   (case toStr (numToString w) reason of
                      Inl e \<Rightarrow> Inl e
                    | Inr s \<Rightarrow> setProp result (lit ''reason'') (JStr (cancelMarker @ s)))
                 else Inr result)
          else Inr result)"

definition progressBody :: "world \<Rightarrow> response \<Rightarrow> error + jsval" where
  "progressBody w r =
     (case r of
        Rejected e \<Rightarrow> Inl e
      | Resolved t \<Rightarrow>
          (case t of
             None \<Rightarrow> Inr progressDefault
           | Some s \<Rightarrow>
               if s \<noteq> [] then
                 (case jsonParseE w s of Inl e \<Rightarrow> Inl e | Inr result \<Rightarrow> markReason w result)
               else Inr progressDefault))"

definition checkNegotiationProgress :: "world \<Rightarrow> jsval list \<Rightarrow> AnalysisResult \<Rightarrow> jsval outcome" where
  "checkNegotiationProgress w messages analysis =
     (let apiKey = getApiKey w in
      if apiKey = [] then (Inr progressDefault, [])
      else
        (case newGoogleGenAI w apiKey of
           Some e \<Rightarrow> (Inl e, [])
         | None \<Rightarrow>
             if length messages < 6 then (Inr progressDefault, [])
             else
               (case conversationText w (sliceLast 8 messages) of
                  Inl e \<Rightarrow> (Inl e, [])
                | Inr conv \<Rightarrow>
                    (let req = textRequest (progressPrompt w analysis conv) in
                     (case progressBody w (generateContent w apiKey req) of
                        Inl e \<Rightarrow> Inr progressDefault
                      | Inr v \<Rightarrow> Inr v,
                      [(apiKey, req)])))))"

section \<open>Notions the properties are stated with\<close>

text \<open>
  A response the code cannot use: the call was rejected, the response has no text or an
  empty one, or the text is not JSON.
\<close>

definition unusable :: "world \<Rightarrow> response \<Rightarrow> bool" where
  "unusable w r =
     (case r of
        Rejected e \<Rightarrow> True
      | Resolved t \<Rightarrow> (case t of None \<Rightarrow> True | Some s \<Rightarrow> s = [] \<or> jsonParse w s = None))"

text \<open>A file that is absent or that the reader can read.\<close>

definition readable :: "File option \<Rightarrow> bool" where
  "readable fo = (case fo of None \<Rightarrow> True | Some f \<Rightarrow> readAsDataURL f \<noteq> None)"

text \<open>
  The parts of the analysis request after the instruction prompt, as the specification
  describes them: a context part for a non-empty report text, a PDF part for a report
  file, a video part for a video file, each holding what stands between the first and
  the second comma of the file's data URL (a data URL has one comma, and its base64 text
  after it).
\<close>

definition base64Data :: "File \<Rightarrow> jsstring option" where
  "base64Data f =
     (case readAsDataURL f of
        None \<Rightarrow> None
      | Some url \<Rightarrow> index (splitOn (0x2C :: 16 word) url) 1)"

definition contextParts :: "jsstring \<Rightarrow> part list" where
  "contextParts reportText =
     (if reportText = [] then [] else [Text (contextPrefix @ reportText)])"

definition pdfParts :: "File option \<Rightarrow> part list" where
  "pdfParts reportFile =
     (case reportFile of
        None \<Rightarrow> []
      | Some f \<Rightarrow> [InlineData (lit ''application/pdf'') (base64Data f)])"

definition videoParts :: "File option \<Rightarrow> part list" where
  "videoParts videoFile =
     (case videoFile of None \<Rightarrow> [] | Some f \<Rightarrow> [InlineData (ftype f) (base64Data f)])"

text \<open>
  A value conforms to a schema: a number to a number schema, a string to a string
  schema, an array to an array schema when its elements conform to the item schema, an
  object to an object schema when the required properties are present and the declared
  properties that are present conform.
\<close>

fun conforms :: "schema \<Rightarrow> jsval \<Rightarrow> bool"
  and conformsProps :: "(jsstring \<times> schema) list \<Rightarrow> (jsstring \<times> jsval) list \<Rightarrow> bool" where
  "conforms (SNumber d) v = (case v of JNum r \<Rightarrow> True | _ \<Rightarrow> False)"
| "conforms (SString d) v = (case v of JStr s \<Rightarrow> True | _ \<Rightarrow> False)"
| "conforms (SArray item d) v = (case v of JArr xs \<Rightarrow> list_all (conforms item) xs | _ \<Rightarrow> False)"
| "conforms (SObject props req) v =
     (case v of
        JObj kvs \<Rightarrow>
          conformsProps props kvs \<and>
          (case req of None \<Rightarrow> True | Some ks \<Rightarrow> list_all (\<lambda>k. map_of kvs k \<noteq> None) ks)
      | _ \<Rightarrow> False)"
| "conformsProps [] kvs = True"
| "conformsProps ((k, s) # ps) kvs =
     ((case map_of kvs k of None \<Rightarrow> True | Some x \<Rightarrow> conforms s x) \<and> conformsProps ps kvs)"

definition requiredFields :: "jsstring list" where
  "requiredFields =
     [lit ''score'', lit ''companyName'', lit ''summary'', lit ''pros'', lit ''cons'', lit ''metrics'']"

text \<open>The score of a value is a number from 0 to 100.\<close>

definition scoreInRange :: "jsval \<Rightarrow> bool" where
  "scoreInRange v =
     (case getProp v (lit ''score'') of
        Inr (JNum r) \<Rightarrow> 0 \<le> r \<and> r \<le> 100
      | _ \<Rightarrow> False)"

text \<open>A value is an object or a primitive value, not \<^verbatim>\<open>null\<close> or \<^verbatim>\<open>undefined\<close>.\<close>

definition notNullish :: "jsval \<Rightarrow> bool" where
  "notNullish v = (v \<noteq> JNull \<and> v \<noteq> JUndefined)"

text \<open>
  A value a template literal can print: a primitive value, an object without an own
  \<^verbatim>\<open>toString\<close> property, or an array whose elements other than \<^verbatim>\<open>null\<close> and
  \<^verbatim>\<open>undefined\<close> can be printed in turn.
\<close>

fun printable :: "jsval \<Rightarrow> bool" where
  "printable (JObj kvs) = (map_of kvs (lit ''toString'') = None)"
| "printable (JArr xs) = list_all (\<lambda>x. x = JUndefined \<or> x = JNull \<or> printable x) xs"
| "printable v = True"

text \<open>
  A message whose line can be built: it is not \<^verbatim>\<open>null\<close> or \<^verbatim>\<open>undefined\<close>, and
  its \<^verbatim>\<open>text\<close> can be printed.
\<close>

definition printableMessage :: "jsval \<Rightarrow> bool" where
  "printableMessage m =
     (notNullish m \<and> (case getProp m (lit ''text'') of Inl e \<Rightarrow> False | Inr t \<Rightarrow> printable t))"

section \<open>Concrete worlds and inputs\<close>

text \<open>
  A world with the key \<^verbatim>\<open>k\<close> whose service answers every request with \<open>r\<close> and
  whose parser gives \<open>p\<close>; and a world without a key whose client accepts the empty key.
\<close>

definition worldWith :: "response \<Rightarrow> jsval option \<Rightarrow> world" where
  "worldWith r p =
     \<lparr>envKey = Some (lit ''k''), ctorEmptyKey = None,
      generateContent = (\<lambda>apiKey req. r), jsonParse = (\<lambda>s. p),
      numToString = (\<lambda>x. lit ''87'')\<rparr>"

definition worldNoKey :: "response \<Rightarrow> jsval option \<Rightarrow> world" where
  "worldNoKey r p = (worldWith r p)\<lparr>envKey := None\<rparr>"

definition demoAnalysis :: AnalysisResult where
  "demoAnalysis =
     \<lparr>score = 87, companyName = lit ''Acme'', summary = lit ''Rockets'',
      pros = [lit ''team'', lit ''market''], cons = [lit ''burn''],
      metrics = \<lparr>marketSize = lit ''large'', scalability = lit ''high'', innovation = lit ''some''\<rparr>\<rparr>"

definition demoMessage :: "string \<Rightarrow> string \<Rightarrow> jsval" where
  "demoMessage role text = JObj [(lit ''role'', JStr (lit role)), (lit ''text'', JStr (lit text))]"

definition demoMessages :: "jsval list" where
  "demoMessages =
     [demoMessage ''model'' ''Welcome'', demoMessage ''user'' ''Hello'',
      demoMessage ''model'' ''Revenue?'', demoMessage ''user'' ''Soon'',
      demoMessage ''model'' ''Growth?'', demoMessage ''user'' ''Big'',
      demoMessage ''model'' ''Valuation?'', demoMessage ''user'' ''Huge'']"

definition demoResponseText :: jsstring where
  \<open>demoResponseText = lit ''{"score":150,"companyName":"Acme","summary":"Rockets","pros":[],"cons":[],"metrics":{}}''\<close>

definition demoResponseValue :: jsval where
  "demoResponseValue =
     JObj [(lit ''score'', JNum 150), (lit ''companyName'', JStr (lit ''Acme'')),
           (lit ''summary'', JStr (lit ''Rockets'')), (lit ''pros'', JArr []),
           (lit ''cons'', JArr []), (lit ''metrics'', JObj [])]"

definition demoCancel :: jsval where
  "demoCancel =
     JObj [(lit ''shouldCancel'', JBool True), (lit ''showWarning'', JBool False),
           (lit ''reason'', JStr (lit ''Misaligned''))]"

definition demoCancelUnprintable :: jsval where
  "demoCancelUnprintable =
     JObj [(lit ''shouldCancel'', JBool True), (lit ''showWarning'', JBool False),
           (lit ''reason'', JObj [(lit ''toString'', JStr (lit ''x''))])]"


definition longPitch :: "string \<Rightarrow> jsstring" where
  "longPitch ending = replicate 1000 (0x61 :: 16 word) @ lit ending"

definition demoPdf :: File where
  "demoPdf = \<lparr>ftype = lit ''application/pdf'', readAsDataURL = Some (lit ''data:application/pdf;base64,JVBERg=='')\<rparr>"

definition demoVideo :: File where
  "demoVideo = \<lparr>ftype = lit ''video/mp4'', readAsDataURL = Some (lit ''data:video/mp4;base64,AAAA'')\<rparr>"

definition brokenFile :: File where
  "brokenFile = \<lparr>ftype = lit ''application/pdf'', readAsDataURL = None\<rparr>"

section \<open>Basic facts\<close>

lemma lit_eq_Nil [simp]: "(lit s = []) = (s = [])"
  by (simp add: lit_def)

lemma of_char16_eq: "((of_char a :: 16 word) = of_char b) = (a = b)"
proof
  assume "(of_char a :: 16 word) = of_char b"
  then have "unat (of_char a :: 16 word) = unat (of_char b :: 16 word)"
    by simp
  moreover have "\<And>c. (of_char c :: nat) < 2 ^ 16"
  proof -
    fix c :: char
    have "(of_char c :: nat) mod 256 = of_char c"
      by simp
    then have "(of_char c :: nat) < 256"
      by (metis mod_less_divisor zero_less_numeral)
    then show "(of_char c :: nat) < 2 ^ 16"
      by (rule less_trans) simp
  qed
  moreover have "\<And>c. (of_char c :: 16 word) = of_nat (of_char c)"
    by (simp only: of_nat_of_char)
  ultimately have "(of_char a :: nat) = of_char b"
    by (simp add: unat_of_nat)
  then show "a = b"
    by simp
qed simp

lemma lit_eq_iff [simp]: "(lit a = lit b) = (a = b)"
proof -
  have "inj (of_char :: char \<Rightarrow> 16 word)"
    by (rule injI) (simp add: of_char16_eq)
  then show ?thesis
    by (simp add: lit_def)
qed

lemma getApiKey_worldWith [simp]: "getApiKey (worldWith r p) = lit ''k''"
  by (simp add: getApiKey_def worldWith_def)

lemma getApiKey_worldNoKey [simp]: "getApiKey (worldNoKey r p) = []"
  by (simp add: getApiKey_def worldNoKey_def)

lemma worldWith_fields [simp]:
  "ctorEmptyKey (worldWith r p) = None"
  "generateContent (worldWith r p) apiKey req = r"
  "jsonParse (worldWith r p) s = p"
  "numToString (worldWith r p) x = lit ''87''"
  by (simp_all add: worldWith_def)

lemma worldNoKey_fields [simp]:
  "ctorEmptyKey (worldNoKey r p) = None"
  "generateContent (worldNoKey r p) apiKey req = r"
  "jsonParse (worldNoKey r p) s = p"
  by (simp_all add: worldNoKey_def worldWith_def)

lemma newGoogleGenAI_key [simp]: "apiKey \<noteq> [] \<Longrightarrow> newGoogleGenAI w apiKey = None"
  by (simp add: newGoogleGenAI_def)

section \<open>The progress checker on a short conversation\<close>

text \<open>
  C3. For every message list with fewer than 6 elements and every analysis,
  \<open>checkNegotiationProgress\<close> returns the object with \<open>shouldCancel\<close> false,
  \<open>showWarning\<close> false and the empty \<open>reason\<close>, and sends no request to the service;
  this holds in every world, with or without a key.
\<close>

theorem checkNegotiationProgress_short:
  assumes "length messages < 6"
  shows "checkNegotiationProgress w messages analysis = (Inr progressDefault, [])"
  using assms by (simp add: checkNegotiationProgress_def Let_def)

theorem checkNegotiationProgress_short_witness:
  "length (take 5 demoMessages) < 6 \<and>
   checkNegotiationProgress (worldWith (Resolved None) None) (take 5 demoMessages) demoAnalysis
     = (Inr progressDefault, [])"
proof -
  have short: "length (take 5 demoMessages) < 6"
    by (simp add: demoMessages_def)
  from checkNegotiationProgress_short [OF short] short show ?thesis
    by blast
qed

section \<open>A missing key\<close>

text \<open>
  C1, as amended. When no key is configured, \<open>analyzeStartupPitch\<close> and
  \<open>createNegotiationSession\<close> throw the configuration error and
  \<open>checkNegotiationProgress\<close> returns its neutral default (it does not signal an
  error); none of the three builds a client or sends a request.
\<close>

theorem missing_key_guards:
  assumes "getApiKey w = []"
  shows "analyzeStartupPitch w videoFile reportText reportFile = (Inl apiKeyMissing, [])
       \<and> createNegotiationSession w initialContext = (Inl apiKeyMissing, [])
       \<and> checkNegotiationProgress w messages analysis = (Inr progressDefault, [])"
  using assms
  by (simp add: analyzeStartupPitch_def createNegotiationSession_def
      checkNegotiationProgress_def)

theorem missing_key_guards_witness:
  "getApiKey (worldNoKey (Resolved None) None) = []
   \<and> analyzeStartupPitch (worldNoKey (Resolved None) None) (Some demoVideo) [] (Some demoPdf)
       = (Inl apiKeyMissing, [])
   \<and> createNegotiationSession (worldNoKey (Resolved None) None) [] = (Inl apiKeyMissing, [])
   \<and> checkNegotiationProgress (worldNoKey (Resolved None) None) demoMessages demoAnalysis
       = (Inr progressDefault, [])"
proof -
  have nokey: "getApiKey (worldNoKey (Resolved None) None) = []"
    by simp
  from missing_key_guards [OF nokey] nokey show ?thesis
    by blast
qed

text \<open>
  C1 as stated fails. Without a key, \<open>checkNegotiationProgress\<close> returns an ordinary
  result, the same one it gives for a short conversation, and no error. And
  \<open>performDueDiligence\<close> has no key check of its own: where the client library accepts
  the empty key, it sends its request with that key.
\<close>

theorem missing_key_counterexample:
  "getApiKey (worldNoKey (Resolved None) None) = []
   \<and> fst (checkNegotiationProgress (worldNoKey (Resolved None) None) demoMessages demoAnalysis)
       = Inr progressDefault
   \<and> fst (checkNegotiationProgress (worldNoKey (Resolved None) None) demoMessages demoAnalysis)
       \<noteq> Inl apiKeyMissing
   \<and> performDueDiligence (worldNoKey (Resolved None) None) [] demoAnalysis
       = (Inr (JArr []), [([], textRequest (dueDiligencePrompt demoAnalysis []))])"
  by (simp add: checkNegotiationProgress_def performDueDiligence_def newGoogleGenAI_def
      dueDiligenceBody_def)

section \<open>Failures inside the simulation invokers\<close>











lemma toStr_printable:
  "isl (toStr n2s v) = (\<not> printable v)"
  "isl (toStrElems n2s xs)
     = (\<not> list_all (\<lambda>x. x = JUndefined \<or> x = JNull \<or> printable x) xs)"
  by (induction n2s v and n2s xs rule: toStr_toStrElems.induct)
    (auto split: sum.splits)

lemma messageLine_printable: "isl (messageLine w m) = (\<not> printableMessage m)"
proof (cases "notNullish m")
  case False
  then show ?thesis
    by (auto simp: notNullish_def printableMessage_def messageLine_def)
next
  case True
  then obtain r t where "getProp m (lit ''role'') = Inr r"
    and "getProp m (lit ''text'') = Inr t"
    by (cases m) (auto simp: notNullish_def)
  with True toStr_printable(1) [of "numToString w" t] show ?thesis
    by (auto simp: printableMessage_def messageLine_def split: sum.splits)
qed

lemma mapE_throws: "isl (mapE f xs) = (\<not> list_all (\<lambda>x. \<not> isl (f x)) xs)"
  by (induction xs) (auto split: sum.splits)

lemma conversationText_throws:
  "isl (conversationText w ms) = (\<not> list_all printableMessage ms)"
proof -
  have "isl (conversationText w ms) = isl (mapE (messageLine w) ms)"
    by (auto simp: conversationText_def split: sum.splits)
  then show ?thesis
    by (simp add: mapE_throws messageLine_printable)
qed

lemma conversationText_no_throw:
  "list_all printableMessage ms \<Longrightarrow> \<not> isl (conversationText w ms)"
  by (simp add: conversationText_throws)







section \<open>When the analysis throws\<close>

lemma fileToBase64_readable:
  "fileToBase64 f = (case readAsDataURL f of None \<Rightarrow> Inl ReadError | Some url \<Rightarrow> Inr (base64Data f))"
  by (simp add: fileToBase64_def base64Data_def split: option.splits)

lemma addReportFile_eq:
  "addReportFile reportFile ps =
     (if readable reportFile then Inr (ps @ pdfParts reportFile) else Inl pdfFailed)"
  by (simp add: addReportFile_def readable_def pdfParts_def fileToBase64_readable
      split: option.splits)

lemma addVideoFile_eq:
  "addVideoFile videoFile ps =
     (if readable videoFile then Inr (ps @ videoParts videoFile) else Inl videoFailed)"
  by (simp add: addVideoFile_def readable_def videoParts_def fileToBase64_readable
      split: option.splits)

lemma analyzeStartupPitch_eq:
  "analyzeStartupPitch w videoFile reportText reportFile =
     (if getApiKey w = [] then (Inl apiKeyMissing, [])
      else if \<not> readable reportFile then (Inl pdfFailed, [])
      else if \<not> readable videoFile then (Inl videoFailed, [])
      else
        (analysisBody w
           (generateContent w (getApiKey w)
              (analysisRequest
                 (Text basePrompt # contextParts reportText @ pdfParts reportFile
                    @ videoParts videoFile))),
         [(getApiKey w,
           analysisRequest
             (Text basePrompt # contextParts reportText @ pdfParts reportFile
                @ videoParts videoFile))]))"
  by (simp add: analyzeStartupPitch_def Let_def addReportFile_eq addVideoFile_eq
      contextParts_def split: sum.splits)

lemma isl_analysisBody: "isl (analysisBody w r) = unusable w r"
  by (simp add: analysisBody_def unusable_def jsonParseE_def
      split: response.splits option.splits)

lemma analysisBody_error:
  "analysisBody w r = Inl e \<Longrightarrow> r = Rejected e \<or> e = noResponseText \<or> e = SyntaxError"
  by (auto simp: analysisBody_def jsonParseE_def split: response.splits option.splits if_splits)

text \<open>
  C4, as amended. \<open>analyzeStartupPitch\<close> throws exactly when the key is absent, or a
  report file or a video file was given and cannot be read, or the request it sent was
  rejected, or was answered with no text or an empty one, or with text that is not JSON.
  The error reaches the caller: it is the configuration error, the PDF or the video
  error, the error the service call was rejected with, the no-text error or the syntax
  error of the parse; no default takes its place.
\<close>

theorem analyzeStartupPitch_throws_iff:
  "(isl (fst (analyzeStartupPitch w videoFile reportText reportFile)) \<longleftrightarrow>
      getApiKey w = [] \<or> \<not> readable reportFile \<or> \<not> readable videoFile
      \<or> list_ex (\<lambda>c. unusable w (generateContent w (fst c) (snd c)))
           (snd (analyzeStartupPitch w videoFile reportText reportFile)))
   \<and> (\<forall>e. fst (analyzeStartupPitch w videoFile reportText reportFile) = Inl e \<longrightarrow>
          e = apiKeyMissing \<or> e = pdfFailed \<or> e = videoFailed \<or> e = noResponseText
          \<or> e = SyntaxError
          \<or> list_ex (\<lambda>c. generateContent w (fst c) (snd c) = Rejected e)
               (snd (analyzeStartupPitch w videoFile reportText reportFile)))"
proof (intro conjI allI impI)
  show "isl (fst (analyzeStartupPitch w videoFile reportText reportFile)) \<longleftrightarrow>
      getApiKey w = [] \<or> \<not> readable reportFile \<or> \<not> readable videoFile
      \<or> list_ex (\<lambda>c. unusable w (generateContent w (fst c) (snd c)))
           (snd (analyzeStartupPitch w videoFile reportText reportFile))"
    by (simp add: analyzeStartupPitch_eq isl_analysisBody)
next
  fix e
  assume "fst (analyzeStartupPitch w videoFile reportText reportFile) = Inl e"
  then show "e = apiKeyMissing \<or> e = pdfFailed \<or> e = videoFailed \<or> e = noResponseText
          \<or> e = SyntaxError
          \<or> list_ex (\<lambda>c. generateContent w (fst c) (snd c) = Rejected e)
               (snd (analyzeStartupPitch w videoFile reportText reportFile))"
    by (auto simp: analyzeStartupPitch_eq split: if_splits dest: analysisBody_error)
qed

theorem analyzeStartupPitch_throws_iff_witness:
  "isl (fst (analyzeStartupPitch (worldWith (Rejected (ApiError (lit ''quota''))) None)
          None [] None))
   \<and> fst (analyzeStartupPitch (worldWith (Rejected (ApiError (lit ''quota''))) None)
          None [] None) = Inl (ApiError (lit ''quota''))
   \<and> getApiKey (worldWith (Rejected (ApiError (lit ''quota''))) None) \<noteq> []"
proof -
  let ?w = "worldWith (Rejected (ApiError (lit ''quota''))) None"
  have sent: "list_ex (\<lambda>c. unusable ?w (generateContent ?w (fst c) (snd c)))
     (snd (analyzeStartupPitch ?w None [] None))"
    by (simp add: analyzeStartupPitch_eq readable_def unusable_def)
  have key: "getApiKey ?w \<noteq> []"
    by simp
  have res: "fst (analyzeStartupPitch ?w None [] None) = Inl (ApiError (lit ''quota''))"
    by (simp add: analyzeStartupPitch_eq readable_def analysisBody_def)
  from analyzeStartupPitch_throws_iff [of ?w None "[]" None] sent key res
  show ?thesis
    by blast
qed

text \<open>
  C4 as stated fails: there are more than two situations. With a key configured and a
  service that would answer with well-formed JSON, \<open>analyzeStartupPitch\<close> throws when the
  report file cannot be read, and when the video file cannot be read, before it sends
  anything.
\<close>

theorem analyzeStartupPitch_throws_counterexample:
  "getApiKey (worldWith (Resolved (Some demoResponseText)) (Some demoResponseValue)) \<noteq> []
   \<and> \<not> unusable (worldWith (Resolved (Some demoResponseText)) (Some demoResponseValue))
         (Resolved (Some demoResponseText))
   \<and> analyzeStartupPitch (worldWith (Resolved (Some demoResponseText)) (Some demoResponseValue))
        None [] (Some brokenFile) = (Inl pdfFailed, [])
   \<and> analyzeStartupPitch (worldWith (Resolved (Some demoResponseText)) (Some demoResponseValue))
        (Some brokenFile) [] None = (Inl videoFailed, [])"
  by (simp add: analyzeStartupPitch_eq readable_def brokenFile_def unusable_def
      demoResponseText_def)

section \<open>What the analysis returns\<close>

lemma analysisBody_value:
  "analysisBody w r = Inr v \<longleftrightarrow> (\<exists>s. r = Resolved (Some s) \<and> s \<noteq> [] \<and> jsonParse w s = Some v)"
  by (auto simp: analysisBody_def jsonParseE_def split: response.splits option.splits)

text \<open>
  C5, as amended. The record \<open>analyzeStartupPitch\<close> returns is the parse of the text the
  service answered with, unchanged and unchecked: its score is the score of the
  response, so it is a number from 0 to 100 exactly when the score of the response is.
\<close>

theorem analyzeStartupPitch_returns_parse:
  assumes "fst (analyzeStartupPitch w videoFile reportText reportFile) = Inr res"
  shows "\<exists>apiKey req s parsed.
           snd (analyzeStartupPitch w videoFile reportText reportFile) = [(apiKey, req)]
         \<and> generateContent w apiKey req = Resolved (Some s)
         \<and> jsonParse w s = Some parsed
         \<and> res = parsed
         \<and> getProp res (lit ''score'') = getProp parsed (lit ''score'')
         \<and> scoreInRange res = scoreInRange parsed"
  using assms
  by (auto simp: analyzeStartupPitch_eq analysisBody_value split: if_splits)

theorem analyzeStartupPitch_returns_parse_witness:
  "fst (analyzeStartupPitch (worldWith (Resolved (Some demoResponseText)) (Some demoResponseValue))
          None [] None) = Inr demoResponseValue
   \<and> (\<exists>apiKey req s.
          snd (analyzeStartupPitch
                 (worldWith (Resolved (Some demoResponseText)) (Some demoResponseValue))
                 None [] None) = [(apiKey, req)]
        \<and> generateContent (worldWith (Resolved (Some demoResponseText)) (Some demoResponseValue))
              apiKey req = Resolved (Some s)
        \<and> jsonParse (worldWith (Resolved (Some demoResponseText)) (Some demoResponseValue)) s
            = Some demoResponseValue)"
proof -
  let ?w = "worldWith (Resolved (Some demoResponseText)) (Some demoResponseValue)"
  have res: "fst (analyzeStartupPitch ?w None [] None) = Inr demoResponseValue"
    by (simp add: analyzeStartupPitch_eq readable_def analysisBody_def jsonParseE_def
        demoResponseText_def)
  from analyzeStartupPitch_returns_parse [OF res] res show ?thesis
    by blast
qed

text \<open>
  C5 as stated fails: nothing in the code bounds the score. A response that conforms to
  the declared schema and carries the score 150 is returned as it is.
\<close>

theorem score_range_counterexample:
  "fst (analyzeStartupPitch (worldWith (Resolved (Some demoResponseText)) (Some demoResponseValue))
          None [] None) = Inr demoResponseValue
   \<and> conforms analysisSchema demoResponseValue
   \<and> getProp demoResponseValue (lit ''score'') = Inr (JNum 150)
   \<and> \<not> scoreInRange demoResponseValue"
  by (simp add: analyzeStartupPitch_eq readable_def analysisBody_def jsonParseE_def
      demoResponseText_def demoResponseValue_def analysisSchema_def scoreInRange_def)

lemma conformsProps_required:
  "list_all (\<lambda>k. map_of kvs k \<noteq> None) ks \<Longrightarrow> k \<in> set ks
     \<Longrightarrow> \<exists>x. getProp (JObj kvs) k = Inr x \<and> map_of kvs k = Some x"
  by (auto simp: list_all_iff)

lemma conforms_required:
  assumes "conforms analysisSchema v" and "k \<in> set requiredFields"
  shows "\<exists>kvs x. v = JObj kvs \<and> map_of kvs k = Some x \<and> getProp v k = Inr x"
proof -
  from assms(1) obtain kvs where v: "v = JObj kvs"
    and req: "list_all (\<lambda>k. map_of kvs k \<noteq> None) requiredFields"
    by (cases v) (simp_all add: analysisSchema_def requiredFields_def)
  from conformsProps_required [OF req assms(2)] v show ?thesis
    by auto
qed

text \<open>
  C6. When the request \<open>analyzeStartupPitch\<close> sent is answered with text that is
  well-formed JSON (so not empty) and conforms to the declared analysis schema, the call returns the
  parsed record, and each of the required fields \<open>score\<close>, \<open>companyName\<close>, \<open>summary\<close>,
  \<open>pros\<close>, \<open>cons\<close> and \<open>metrics\<close> of the returned record is present and holds the value
  the response gives it.
\<close>

theorem analyzeStartupPitch_fields:
  assumes sent: "snd (analyzeStartupPitch w videoFile reportText reportFile) = [(apiKey, req)]"
    and answer: "generateContent w apiKey req = Resolved (Some s)"
    and wellformed: "s \<noteq> []" "jsonParse w s = Some parsed"
    and schema: "conforms analysisSchema parsed"
  shows "\<exists>res kvs.
           fst (analyzeStartupPitch w videoFile reportText reportFile) = Inr res
         \<and> parsed = JObj kvs
         \<and> (\<forall>k \<in> set requiredFields.
               \<exists>x. map_of kvs k = Some x \<and> getProp res k = Inr x)"
proof -
  from sent answer wellformed
  have res: "fst (analyzeStartupPitch w videoFile reportText reportFile) = Inr parsed"
    by (auto simp: analyzeStartupPitch_eq analysisBody_def jsonParseE_def split: if_splits)
  from schema obtain kvs where kvs: "parsed = JObj kvs"
    by (cases parsed) (simp_all add: analysisSchema_def)
  have "\<forall>k \<in> set requiredFields. \<exists>x. map_of kvs k = Some x \<and> getProp parsed k = Inr x"
    using conforms_required [OF schema] kvs by auto
  with res kvs show ?thesis
    by blast
qed

theorem analyzeStartupPitch_fields_witness:
  "conforms analysisSchema demoResponseValue
   \<and> (\<exists>res kvs.
         fst (analyzeStartupPitch
                (worldWith (Resolved (Some demoResponseText)) (Some demoResponseValue))
                (Some demoVideo) (lit ''seed round'') (Some demoPdf)) = Inr res
       \<and> demoResponseValue = JObj kvs
       \<and> (\<forall>k \<in> set requiredFields. \<exists>x. map_of kvs k = Some x \<and> getProp res k = Inr x))"
proof -
  let ?w = "worldWith (Resolved (Some demoResponseText)) (Some demoResponseValue)"
  let ?req = "analysisRequest (Text basePrompt # contextParts (lit ''seed round'')
                @ pdfParts (Some demoPdf) @ videoParts (Some demoVideo))"
  have sent: "snd (analyzeStartupPitch ?w (Some demoVideo) (lit ''seed round'') (Some demoPdf))
      = [(lit ''k'', ?req)]"
    by (simp add: analyzeStartupPitch_eq readable_def demoPdf_def demoVideo_def)
  have answer: "generateContent ?w (lit ''k'') ?req = Resolved (Some demoResponseText)"
    by simp
  have wellformed: "demoResponseText \<noteq> []" "jsonParse ?w demoResponseText = Some demoResponseValue"
    by (simp_all add: demoResponseText_def)
  have schema: "conforms analysisSchema demoResponseValue"
    by (simp add: demoResponseValue_def analysisSchema_def)
  from analyzeStartupPitch_fields [OF sent answer wellformed schema] schema show ?thesis
    by blast
qed

section \<open>The analysis request\<close>

text \<open>
  C7. Every request \<open>analyzeStartupPitch\<close> sends has the fixed instruction prompt as its
  first part and declares the analysis schema as the schema of a JSON response. After
  the prompt come, in this order: a context part with the report text, present exactly
  when the report text is non-empty; a PDF part with the encoded report file, present
  exactly when a report file is given; a video part with the encoded video file and the
  file's own type, present exactly when a video file is given.
\<close>

theorem analysis_request_parts:
  assumes "(apiKey, req) \<in> set (snd (analyzeStartupPitch w videoFile reportText reportFile))"
  shows "hd (parts req) = Text basePrompt
       \<and> responseSchema req = Some analysisSchema
       \<and> responseMimeType req = lit ''application/json''
       \<and> tl (parts req) = contextParts reportText @ pdfParts reportFile @ videoParts videoFile
       \<and> (contextParts reportText \<noteq> [] \<longleftrightarrow> reportText \<noteq> [])
       \<and> (pdfParts reportFile \<noteq> [] \<longleftrightarrow> reportFile \<noteq> None)
       \<and> (videoParts videoFile \<noteq> [] \<longleftrightarrow> videoFile \<noteq> None)"
proof -
  from assms
  have "req = analysisRequest (Text basePrompt # contextParts reportText @ pdfParts reportFile
                @ videoParts videoFile)"
    by (auto simp: analyzeStartupPitch_eq split: if_splits)
  then show ?thesis
    by (simp add: analysisRequest_def contextParts_def pdfParts_def videoParts_def
        split: option.splits)
qed

theorem analysis_request_parts_witness:
  "snd (analyzeStartupPitch (worldWith (Resolved None) None)
          (Some demoVideo) (lit ''seed round'') (Some demoPdf))
     = [(lit ''k'',
         \<lparr>model = modelId,
          parts = [Text basePrompt, Text (contextPrefix @ lit ''seed round''),
                   InlineData (lit ''application/pdf'') (Some (lit ''JVBERg=='')),
                   InlineData (lit ''video/mp4'') (Some (lit ''AAAA''))],
          responseMimeType = lit ''application/json'',
          responseSchema = Some analysisSchema\<rparr>)]
   \<and> tl [Text basePrompt, Text (contextPrefix @ lit ''seed round''),
          InlineData (lit ''application/pdf'') (Some (lit ''JVBERg=='')),
          InlineData (lit ''video/mp4'') (Some (lit ''AAAA''))]
       = contextParts (lit ''seed round'') @ pdfParts (Some demoPdf) @ videoParts (Some demoVideo)"
proof -
  let ?w = "worldWith (Resolved None) None"
  let ?req = "\<lparr>model = modelId,
          parts = [Text basePrompt, Text (contextPrefix @ lit ''seed round''),
                   InlineData (lit ''application/pdf'') (Some (lit ''JVBERg=='')),
                   InlineData (lit ''video/mp4'') (Some (lit ''AAAA''))],
          responseMimeType = lit ''application/json'',
          responseSchema = Some analysisSchema\<rparr>"
  have sent: "snd (analyzeStartupPitch ?w (Some demoVideo) (lit ''seed round'') (Some demoPdf))
     = [(lit ''k'', ?req)]"
    by (simp add: analyzeStartupPitch_eq readable_def demoPdf_def demoVideo_def
        analysisRequest_def contextParts_def pdfParts_def videoParts_def base64Data_def
        index_def lit_def)
  then have "(lit ''k'', ?req)
      \<in> set (snd (analyzeStartupPitch ?w (Some demoVideo) (lit ''seed round'') (Some demoPdf)))"
    by simp
  from analysis_request_parts [OF this] sent show ?thesis
    by simp
qed

section \<open>What the progress check depends on\<close>



section \<open>What the progress check does with a parsed result\<close>

lemma map_of_updateProp: "map_of (updateProp k x kvs) = (map_of kvs)(k \<mapsto> x)"
  by (induction kvs) (auto simp: fun_eq_iff)

lemma keys_updateProp:
  "map_of kvs k \<noteq> None \<Longrightarrow> map fst (updateProp k x kvs) = map fst kvs"
  by (induction kvs) auto

lemma getProp_truthy_object:
  assumes "getProp v k = Inr x" and "truthy x"
  shows "\<exists>kvs. v = JObj kvs \<and> map_of kvs k = Some x"
  using assms by (cases v) (auto split: option.splits)

lemma markReason_nullish: "\<not> notNullish v \<Longrightarrow> markReason w v = Inl TypeError"
  by (auto simp: notNullish_def markReason_def)

lemma markReason_unchanged:
  assumes "getProp v (lit ''shouldCancel'') = Inr c"
    and "\<not> truthy c \<or> (\<exists>r. getProp v (lit ''reason'') = Inr r \<and> \<not> truthy r)"
  shows "markReason w v = Inr v"
  using assms by (auto simp: markReason_def)

lemma markReason_marked:
  assumes "getProp v (lit ''shouldCancel'') = Inr c" and "truthy c"
    and "getProp v (lit ''reason'') = Inr r" and "truthy r"
    and "toStr (numToString w) r = Inr str"
  shows "\<exists>kvs. v = JObj kvs
           \<and> markReason w v
               = Inr (JObj (updateProp (lit ''reason'') (JStr (cancelMarker @ str)) kvs))
           \<and> map_of kvs (lit ''reason'') = Some r"
proof -
  from getProp_truthy_object [OF assms(3,4)]
  obtain kvs where v: "v = JObj kvs" and r: "map_of kvs (lit ''reason'') = Some r"
    by blast
  from assms v r show ?thesis
    by (simp add: markReason_def)
qed

lemma markReason_unprintable:
  assumes "getProp v (lit ''shouldCancel'') = Inr c" and "truthy c"
    and "getProp v (lit ''reason'') = Inr r" and "truthy r"
    and "\<not> printable r"
  shows "isl (markReason w v)"
  using assms toStr_printable(1) [of "numToString w" r]
  by (auto simp: markReason_def split: sum.splits)

lemma progress_parsed:
  assumes "getApiKey w \<noteq> []" and "6 \<le> length messages"
    and "conversationText w (sliceLast 8 messages) = Inr conv"
    and "generateContent w (getApiKey w) (textRequest (progressPrompt w analysis conv))
           = Resolved (Some s)"
    and "s \<noteq> []" and "jsonParse w s = Some result"
  shows "fst (checkNegotiationProgress w messages analysis)
       = (case markReason w result of Inl e \<Rightarrow> Inr progressDefault | Inr v \<Rightarrow> Inr v)"
  using assms
  by (simp add: checkNegotiationProgress_def Let_def progressBody_def jsonParseE_def
      split: sum.splits)

text \<open>
  C9, as amended. Let the response to the request of \<open>checkNegotiationProgress\<close> parse
  to a result. If the result's \<open>shouldCancel\<close> and \<open>reason\<close> are both truthy (as are
  \<open>true\<close> and a non-empty string) and the reason can be printed by a template literal
  (as every string can), the call returns the result with \<open>reason\<close> replaced by the
  fixed marker followed by the printed reason, every other property and the order of the
  properties unchanged. If the result is not \<open>null\<close> and its \<open>shouldCancel\<close> or its
  \<open>reason\<close> is falsy, the call returns the result unchanged. If the result is \<open>null\<close>,
  or if both are truthy and the reason cannot be printed (it is an object with an own
  \<open>toString\<close> property, or an array that holds one), the call returns its neutral
  default.
\<close>

theorem checkNegotiationProgress_parsed:
  assumes key: "getApiKey w \<noteq> []" and len: "6 \<le> length messages"
    and conv: "conversationText w (sliceLast 8 messages) = Inr conv"
    and answer: "generateContent w (getApiKey w) (textRequest (progressPrompt w analysis conv))
                   = Resolved (Some s)"
    and wellformed: "s \<noteq> []" "jsonParse w s = Some result"
  shows "(\<forall>c r str. getProp result (lit ''shouldCancel'') = Inr c \<and> truthy c
              \<and> getProp result (lit ''reason'') = Inr r \<and> truthy r
              \<and> toStr (numToString w) r = Inr str \<longrightarrow>
            (\<exists>kvs kvs'.
                result = JObj kvs
              \<and> fst (checkNegotiationProgress w messages analysis) = Inr (JObj kvs')
              \<and> map_of kvs' (lit ''reason'') = Some (JStr (cancelMarker @ str))
              \<and> (\<forall>k. k \<noteq> lit ''reason'' \<longrightarrow> map_of kvs' k = map_of kvs k)
              \<and> map fst kvs' = map fst kvs))
       \<and> (\<forall>c. getProp result (lit ''shouldCancel'') = Inr c
              \<and> (\<not> truthy c \<or> (\<exists>r. getProp result (lit ''reason'') = Inr r \<and> \<not> truthy r)) \<longrightarrow>
            fst (checkNegotiationProgress w messages analysis) = Inr result)
       \<and> (\<not> notNullish result \<longrightarrow>
            fst (checkNegotiationProgress w messages analysis) = Inr progressDefault)
       \<and> (\<forall>c r. getProp result (lit ''shouldCancel'') = Inr c \<and> truthy c
              \<and> getProp result (lit ''reason'') = Inr r \<and> truthy r
              \<and> \<not> printable r \<longrightarrow>
            fst (checkNegotiationProgress w messages analysis) = Inr progressDefault)
       \<and> (\<forall>r. printable r \<longleftrightarrow> (\<exists>str. toStr (numToString w) r = Inr str))"
proof (intro conjI allI impI)
  note out = progress_parsed [OF key len conv answer wellformed]
  {
    fix c r str
    assume h: "getProp result (lit ''shouldCancel'') = Inr c \<and> truthy c
               \<and> getProp result (lit ''reason'') = Inr r \<and> truthy r
               \<and> toStr (numToString w) r = Inr str"
    then obtain kvs where kvs: "result = JObj kvs"
      and m: "markReason w result
               = Inr (JObj (updateProp (lit ''reason'') (JStr (cancelMarker @ str)) kvs))"
      and r: "map_of kvs (lit ''reason'') = Some r"
      using markReason_marked [of result c r w str] by blast
    let ?kvs' = "updateProp (lit ''reason'') (JStr (cancelMarker @ str)) kvs"
    have "fst (checkNegotiationProgress w messages analysis) = Inr (JObj ?kvs')"
      using out m by simp
    moreover have "map_of ?kvs' (lit ''reason'') = Some (JStr (cancelMarker @ str))"
      by (simp add: map_of_updateProp)
    moreover have "\<forall>k. k \<noteq> lit ''reason'' \<longrightarrow> map_of ?kvs' k = map_of kvs k"
      by (simp add: map_of_updateProp)
    moreover have "map fst ?kvs' = map fst kvs"
      using r by (simp add: keys_updateProp)
    ultimately show "\<exists>kvs kvs'.
                result = JObj kvs
              \<and> fst (checkNegotiationProgress w messages analysis) = Inr (JObj kvs')
              \<and> map_of kvs' (lit ''reason'') = Some (JStr (cancelMarker @ str))
              \<and> (\<forall>k. k \<noteq> lit ''reason'' \<longrightarrow> map_of kvs' k = map_of kvs k)
              \<and> map fst kvs' = map fst kvs"
      using kvs by blast
  }
  {
    fix c
    assume "getProp result (lit ''shouldCancel'') = Inr c
              \<and> (\<not> truthy c \<or> (\<exists>r. getProp result (lit ''reason'') = Inr r \<and> \<not> truthy r))"
    then have "markReason w result = Inr result"
      using markReason_unchanged [of result c w] by blast
    then show "fst (checkNegotiationProgress w messages analysis) = Inr result"
      using out by simp
  }
  {
    assume "\<not> notNullish result"
    then have "markReason w result = Inl TypeError"
      by (rule markReason_nullish)
    then show "fst (checkNegotiationProgress w messages analysis) = Inr progressDefault"
      using out by simp
  }
  {
    fix c r
    assume "getProp result (lit ''shouldCancel'') = Inr c \<and> truthy c
              \<and> getProp result (lit ''reason'') = Inr r \<and> truthy r \<and> \<not> printable r"
    then have "isl (markReason w result)"
      using markReason_unprintable [of result c r w] by blast
    then show "fst (checkNegotiationProgress w messages analysis) = Inr progressDefault"
      using out by (auto split: sum.splits)
  }
  {
    fix r
    show "printable r \<longleftrightarrow> (\<exists>str. toStr (numToString w) r = Inr str)"
      using toStr_printable(1) [of "numToString w" r]
      by (cases "toStr (numToString w) r") auto
  }
qed

theorem checkNegotiationProgress_parsed_witness:
  "getApiKey (worldWith (Resolved (Some (lit ''x''))) (Some demoCancel)) \<noteq> []
   \<and> 6 \<le> length demoMessages
   \<and> jsonParse (worldWith (Resolved (Some (lit ''x''))) (Some demoCancel)) (lit ''x'')
       = Some demoCancel
   \<and> (\<exists>kvs'.
         fst (checkNegotiationProgress (worldWith (Resolved (Some (lit ''x''))) (Some demoCancel))
                demoMessages demoAnalysis) = Inr (JObj kvs')
       \<and> map_of kvs' (lit ''reason'') = Some (JStr (cancelMarker @ lit ''Misaligned''))
       \<and> map_of kvs' (lit ''showWarning'') = Some (JBool False)
       \<and> map fst kvs' = [lit ''shouldCancel'', lit ''showWarning'', lit ''reason''])"
proof -
  let ?w = "worldWith (Resolved (Some (lit ''x''))) (Some demoCancel)"
  have key: "getApiKey ?w \<noteq> []"
    by simp
  have len: "6 \<le> length demoMessages"
    by (simp add: demoMessages_def)
  have "list_all printableMessage (sliceLast 8 demoMessages)"
    by (simp add: sliceLast_def demoMessages_def demoMessage_def printableMessage_def
        notNullish_def)
  then have "\<not> isl (conversationText ?w (sliceLast 8 demoMessages))"
    by (rule conversationText_no_throw)
  then obtain conv where conv: "conversationText ?w (sliceLast 8 demoMessages) = Inr conv"
    by (cases "conversationText ?w (sliceLast 8 demoMessages)") auto
  have answer: "generateContent ?w (getApiKey ?w) (textRequest (progressPrompt ?w demoAnalysis conv))
      = Resolved (Some (lit ''x''))"
    by simp
  have wellformed: "lit ''x'' \<noteq> []" "jsonParse ?w (lit ''x'') = Some demoCancel"
    by simp_all
  have cancel: "getProp demoCancel (lit ''shouldCancel'') = Inr (JBool True) \<and> truthy (JBool True)
      \<and> getProp demoCancel (lit ''reason'') = Inr (JStr (lit ''Misaligned''))
      \<and> truthy (JStr (lit ''Misaligned''))
      \<and> toStr (numToString ?w) (JStr (lit ''Misaligned'')) = Inr (lit ''Misaligned'')"
    by (simp add: demoCancel_def)
  from checkNegotiationProgress_parsed [OF key len conv answer wellformed] cancel
  obtain kvs kvs' where kvs: "demoCancel = JObj kvs"
    and res: "fst (checkNegotiationProgress ?w demoMessages demoAnalysis) = Inr (JObj kvs')"
    and reason: "map_of kvs' (lit ''reason'') = Some (JStr (cancelMarker @ lit ''Misaligned''))"
    and others: "\<forall>k. k \<noteq> lit ''reason'' \<longrightarrow> map_of kvs' k = map_of kvs k"
    and keys: "map fst kvs' = map fst kvs"
    by blast
  from kvs have kvs_eq: "kvs = [(lit ''shouldCancel'', JBool True), (lit ''showWarning'', JBool False),
           (lit ''reason'', JStr (lit ''Misaligned''))]"
    by (simp add: demoCancel_def)
  from others have "map_of kvs' (lit ''showWarning'') = map_of kvs (lit ''showWarning'')"
    by simp
  with kvs_eq have warning: "map_of kvs' (lit ''showWarning'') = Some (JBool False)"
    by simp
  from keys kvs_eq have order: "map fst kvs' = [lit ''shouldCancel'', lit ''showWarning'', lit ''reason'']"
    by simp
  from reason key len wellformed res warning order show ?thesis
    by auto
qed

text \<open>
  C9 as stated fails. The text \<open>null\<close> parses, to \<open>null\<close>; reading \<open>shouldCancel\<close> from
  it throws inside the \<open>try\<close> block, and the call returns its neutral default in place
  of the parsed result. And a result whose \<open>shouldCancel\<close> is \<open>true\<close> and whose \<open>reason\<close>
  is an object with an own \<open>toString\<close> property is returned neither marked nor
  unchanged: printing the reason throws inside the \<open>try\<close> block, and the call returns
  its neutral default.
\<close>

theorem checkNegotiationProgress_null_counterexample:
  "jsonParse (worldWith (Resolved (Some (lit ''null''))) (Some JNull)) (lit ''null'') = Some JNull
   \<and> fst (checkNegotiationProgress (worldWith (Resolved (Some (lit ''null''))) (Some JNull))
          demoMessages demoAnalysis) = Inr progressDefault
   \<and> length (snd (checkNegotiationProgress (worldWith (Resolved (Some (lit ''null''))) (Some JNull))
          demoMessages demoAnalysis)) = 1
   \<and> progressDefault \<noteq> JNull
   \<and> getProp demoCancelUnprintable (lit ''shouldCancel'') = Inr (JBool True)
   \<and> getProp demoCancelUnprintable (lit ''reason'')
       = Inr (JObj [(lit ''toString'', JStr (lit ''x''))])
   \<and> truthy (JObj [(lit ''toString'', JStr (lit ''x''))])
   \<and> fst (checkNegotiationProgress
            (worldWith (Resolved (Some (lit ''x''))) (Some demoCancelUnprintable))
            demoMessages demoAnalysis) = Inr progressDefault
   \<and> progressDefault \<noteq> demoCancelUnprintable"
proof -
  let ?w = "worldWith (Resolved (Some (lit ''null''))) (Some JNull)"
  let ?v = "worldWith (Resolved (Some (lit ''x''))) (Some demoCancelUnprintable)"
  have msgs: "list_all printableMessage (sliceLast 8 demoMessages)"
    by (simp add: sliceLast_def demoMessages_def demoMessage_def printableMessage_def
        notNullish_def)
  then have "\<not> isl (conversationText ?w (sliceLast 8 demoMessages))"
    by (rule conversationText_no_throw)
  then obtain conv where conv: "conversationText ?w (sliceLast 8 demoMessages) = Inr conv"
    by (cases "conversationText ?w (sliceLast 8 demoMessages)") auto
  from msgs have "\<not> isl (conversationText ?v (sliceLast 8 demoMessages))"
    by (rule conversationText_no_throw)
  then obtain conv' where conv': "conversationText ?v (sliceLast 8 demoMessages) = Inr conv'"
    by (cases "conversationText ?v (sliceLast 8 demoMessages)") auto
  have len: "\<not> length demoMessages < 6"
    by (simp add: demoMessages_def)
  have null: "fst (checkNegotiationProgress ?w demoMessages demoAnalysis) = Inr progressDefault"
    "length (snd (checkNegotiationProgress ?w demoMessages demoAnalysis)) = 1"
    using conv len
    by (simp_all add: checkNegotiationProgress_def Let_def progressBody_def jsonParseE_def
        markReason_def)
  have unprintable:
    "fst (checkNegotiationProgress ?v demoMessages demoAnalysis) = Inr progressDefault"
    using conv' len
    by (simp add: checkNegotiationProgress_def Let_def progressBody_def jsonParseE_def
        markReason_def demoCancelUnprintable_def)
  have rest: "progressDefault \<noteq> JNull"
    "getProp demoCancelUnprintable (lit ''shouldCancel'') = Inr (JBool True)"
    "getProp demoCancelUnprintable (lit ''reason'')
       = Inr (JObj [(lit ''toString'', JStr (lit ''x''))])"
    "truthy (JObj [(lit ''toString'', JStr (lit ''x''))])"
    "progressDefault \<noteq> demoCancelUnprintable"
    by (simp_all add: progressDefault_def demoCancelUnprintable_def)
  from null unprintable rest show ?thesis
    by simp
qed

section \<open>What the due diligence prompt depends on\<close>

lemma substring_prefix: "substring 0 n s = take n s"
  by (simp add: substring_def)

text \<open>
  C10. For two pitch texts that agree on their first 1000 code units, and the same
  analysis, \<open>performDueDiligence\<close> builds the same prompt, and so sends the same request
  and has the same outcome.
\<close>

theorem dueDiligence_prompt_prefix:
  assumes "take 1000 pitchText1 = take 1000 pitchText2"
  shows "dueDiligencePrompt analysis pitchText1 = dueDiligencePrompt analysis pitchText2
       \<and> performDueDiligence w pitchText1 analysis = performDueDiligence w pitchText2 analysis"
proof -
  from assms have "substring 0 1000 pitchText1 = substring 0 1000 pitchText2"
    by (simp only: substring_prefix)
  then have prompt: "dueDiligencePrompt analysis pitchText1 = dueDiligencePrompt analysis pitchText2"
    unfolding dueDiligencePrompt_def by (simp only:)
  then have "performDueDiligence w pitchText1 analysis = performDueDiligence w pitchText2 analysis"
    unfolding performDueDiligence_def by (simp only:)
  with prompt show ?thesis
    by (rule conjI)
qed

theorem dueDiligence_prompt_prefix_witness:
  "take 1000 (longPitch ''revenue'') = take 1000 (longPitch ''losses'')
   \<and> longPitch ''revenue'' \<noteq> longPitch ''losses''
   \<and> dueDiligencePrompt demoAnalysis (longPitch ''revenue'')
     = dueDiligencePrompt demoAnalysis (longPitch ''losses'')
   \<and> performDueDiligence (worldWith (Resolved None) None) (longPitch ''revenue'') demoAnalysis
     = performDueDiligence (worldWith (Resolved None) None) (longPitch ''losses'') demoAnalysis"
proof -
  have same: "take 1000 (longPitch ''revenue'') = take 1000 (longPitch ''losses'')"
    by (simp add: longPitch_def)
  have differ: "longPitch ''revenue'' \<noteq> longPitch ''losses''"
    by (simp add: longPitch_def)
  from dueDiligence_prompt_prefix [OF same] same differ show ?thesis
    by blast
qed

end
